theory Spec2Isabelle
  imports Complex_Main "HOL-Library.Log_Nat"
begin

section \<open>Climate-Agri Shield: scenario simulation and risk decision (app.py)\<close>

text \<open>
  The program is one script, run top to bottom on every interaction. Exceptions are
  values of \<open>exn\<close>; a step that can raise returns \<open>exn + 'a\<close>, with \<open>Inl\<close> the
  exception.

  Its numbers are Python and numpy floats, that is IEEE 754 doubles. The data prep of
  lines 91-97 is written once, over any number type and its arithmetic
  (\<open>build_inputs_in\<close>), and read at two arithmetics: at the doubles (\<open>binary64\<close>), where
  every operation rounds, for what the shocked values are; and at the reals
  (\<open>build_inputs\<close>), for the labels, the model calls and the errors of a run, where the
  arithmetic plays no role. The comparisons of the labeling rule against 0.65, 0.35 and 10
  are comparisons of reals.
\<close>

subsection \<open>Data\<close>

datatype exn =
    IndexError
  | KeyError string
  | ModelException string

text \<open>
  One row of the data frame: the columns \<open>Country\<close> and \<open>Year\<close>, and the numeric
  columns by name (\<open>latest[f]\<close> raises \<open>KeyError\<close> for a column that is absent).
\<close>

record row =
  Country :: string
  Year :: int
  indicators :: "string \<rightharpoonup> real"

type_synonym dict = "string \<rightharpoonup> real"

text \<open>
  A loaded model: \<open>predict_proba(risk_df)[0][1]\<close> or \<open>predict(yield_df)[0]\<close> on the
  one-row frame built from a dictionary. It returns a number or raises.
\<close>

type_synonym model = "dict \<Rightarrow> exn + real"

datatype event = PredictProba dict | Predict dict

datatype tier = HIGH_RISK | LOW_RISK | STABLE

record prediction =
  risk_prob :: real
  yield_pred :: real
  risk_label :: tier
  color :: string

subsection \<open>Features (lines 65-71)\<close>

definition RISK_FEATURES :: "string list" where
  "RISK_FEATURES =
     [''Area_Harvested'', ''Production_Tonnes'', ''Avg_Temp'', ''Temp_Volatility'',
      ''GDP_current_US'', ''political_stability_estimate'', ''Inflation'',
      ''CO2_emisions'', ''Agri_Land_Percent'', ''Forest_Land_Percent'', ''population'']"

definition YIELD_FEATURES :: "string list" where
  "YIELD_FEATURES = [''Avg_Temp'', ''Temp_Volatility'', ''GDP_current_US'']"

subsection \<open>Data prep (lines 88-97)\<close>

text \<open>
  \<open>df[df["Country"] == country].sort_values("Year")\<close>: the rows of the country, by
  ascending year. Rows of the same year keep their order here; pandas' default sort does
  not promise that, and nothing below depends on it.
\<close>

definition country_df :: "row list \<Rightarrow> string \<Rightarrow> row list" where
  "country_df df country = sort_key Year (filter (\<lambda>r. Country r = country) df)"

text \<open>\<open>country_df.iloc[-1]\<close>: the last row, \<open>IndexError\<close> on an empty frame.\<close>

definition iloc_last :: "row list \<Rightarrow> exn + row" where
  "iloc_last rows = (case rows of [] \<Rightarrow> Inl IndexError | _ # _ \<Rightarrow> Inr (last rows))"

definition latest :: "row list \<Rightarrow> string \<Rightarrow> exn + row" where
  "latest df country = iloc_last (country_df df country)"

text \<open>
  The comprehension \<open>{f: latest[f] for f in FEATURES}\<close>: the names are visited in
  order, each looked up in the row and stored in the dictionary built so far.
\<close>

fun dict_comp ::
  "string list \<Rightarrow> (string \<rightharpoonup> 'v) \<Rightarrow> (string \<rightharpoonup> 'v) \<Rightarrow> exn + (string \<rightharpoonup> 'v)" where
  "dict_comp [] s d = Inr d"
| "dict_comp (f # fs) s d =
     (case s f of
        None \<Rightarrow> Inl (KeyError f)
      | Some v \<Rightarrow> dict_comp fs s (d(f \<mapsto> v)))"

text \<open>\<open>d[k] += x\<close> and \<open>d[k] *= x\<close>: read \<open>d[k]\<close> (\<open>KeyError\<close> if absent), store the new value.\<close>

definition augmented ::
  "(string \<rightharpoonup> 'v) \<Rightarrow> string \<Rightarrow> ('v \<Rightarrow> 'v) \<Rightarrow> exn + (string \<rightharpoonup> 'v)" where
  "augmented d k f = (case d k of None \<Rightarrow> Inl (KeyError k) | Some v \<Rightarrow> Inr (d(k \<mapsto> f v)))"

text \<open>
  The arithmetic of lines 94-97: \<open>+\<close>, \<open>*\<close>, division by the literal 100, and the
  literal 1.
\<close>

record 'v arith =
  fadd :: "'v \<Rightarrow> 'v \<Rightarrow> 'v"
  fmul :: "'v \<Rightarrow> 'v \<Rightarrow> 'v"
  fdiv100 :: "'v \<Rightarrow> 'v"
  fone :: 'v

text \<open>Lines 91-97, over the arithmetic \<open>ar\<close>.\<close>

definition build_inputs_in ::
  "'v arith \<Rightarrow> (string \<rightharpoonup> 'v) \<Rightarrow> 'v \<Rightarrow> 'v \<Rightarrow>
     exn + (string \<rightharpoonup> 'v) \<times> (string \<rightharpoonup> 'v)" where
  "build_inputs_in ar s temp_delta gdp_delta =
     (case dict_comp RISK_FEATURES s Map.empty of
        Inl e \<Rightarrow> Inl e
      | Inr risk0 \<Rightarrow>
     (case dict_comp YIELD_FEATURES s Map.empty of
        Inl e \<Rightarrow> Inl e
      | Inr yield0 \<Rightarrow>
     (case augmented risk0 ''Avg_Temp'' (\<lambda>v. fadd ar v temp_delta) of
        Inl e \<Rightarrow> Inl e
      | Inr risk1 \<Rightarrow>
     (case augmented risk1 ''GDP_current_US''
             (\<lambda>v. fmul ar v (fadd ar (fone ar) (fdiv100 ar gdp_delta))) of
        Inl e \<Rightarrow> Inl e
      | Inr risk_input \<Rightarrow>
     (case augmented yield0 ''Avg_Temp'' (\<lambda>v. fadd ar v temp_delta) of
        Inl e \<Rightarrow> Inl e
      | Inr yield1 \<Rightarrow>
     (case augmented yield1 ''GDP_current_US''
             (\<lambda>v. fmul ar v (fadd ar (fone ar) (fdiv100 ar gdp_delta))) of
        Inl e \<Rightarrow> Inl e
      | Inr yield_input \<Rightarrow> Inr (risk_input, yield_input)))))))"

text \<open>The arithmetic of the reals, and lines 91-97 over it.\<close>

definition exact :: "real arith" where
  "exact = \<lparr>fadd = (\<lambda>a b. a + b), fmul = (\<lambda>a b. a * b), fdiv100 = (\<lambda>a. a / 100), fone = 1\<rparr>"

definition build_inputs :: "(string \<rightharpoonup> real) \<Rightarrow> real \<Rightarrow> real \<Rightarrow> exn + dict \<times> dict" where
  "build_inputs s temp_delta gdp_delta =
     (case dict_comp RISK_FEATURES s Map.empty of
        Inl e \<Rightarrow> Inl e
      | Inr risk0 \<Rightarrow>
     (case dict_comp YIELD_FEATURES s Map.empty of
        Inl e \<Rightarrow> Inl e
      | Inr yield0 \<Rightarrow>
     (case augmented risk0 ''Avg_Temp'' (\<lambda>v. v + temp_delta) of
        Inl e \<Rightarrow> Inl e
      | Inr risk1 \<Rightarrow>
     (case augmented risk1 ''GDP_current_US'' (\<lambda>v. v * (1 + gdp_delta / 100)) of
        Inl e \<Rightarrow> Inl e
      | Inr risk_input \<Rightarrow>
     (case augmented yield0 ''Avg_Temp'' (\<lambda>v. v + temp_delta) of
        Inl e \<Rightarrow> Inl e
      | Inr yield1 \<Rightarrow>
     (case augmented yield1 ''GDP_current_US'' (\<lambda>v. v * (1 + gdp_delta / 100)) of
        Inl e \<Rightarrow> Inl e
      | Inr yield_input \<Rightarrow> Inr (risk_input, yield_input)))))))"

definition data_prep :: "row list \<Rightarrow> string \<Rightarrow> real \<Rightarrow> real \<Rightarrow> exn + dict \<times> dict" where
  "data_prep df country temp_delta gdp_delta =
     (case latest df country of
        Inl e \<Rightarrow> Inl e
      | Inr r \<Rightarrow> build_inputs (indicators r) temp_delta gdp_delta)"

subsection \<open>The doubles\<close>


definition pow2 :: "int \<Rightarrow> real" where
  "pow2 e = (if 0 \<le> e then 2 ^ nat e else 1 / 2 ^ nat (- e))"

text \<open>The exponent \<open>e\<close> of a non-zero real: \<open>2^e \<le> |x| < 2^(e+1)\<close>.\<close>

definition binade :: "real \<Rightarrow> int" where
  "binade x =
     (if 1 \<le> \<bar>x\<bar> then bitlen \<lfloor>\<bar>x\<bar>\<rfloor> - 1 else - bitlen (\<lceil>1 / \<bar>x\<bar>\<rceil> - 1))"

definition round_half_even :: "real \<Rightarrow> int" where
  "round_half_even x =
     (if x - of_int \<lfloor>x\<rfloor> < 1 / 2 then \<lfloor>x\<rfloor>
      else if 1 / 2 < x - of_int \<lfloor>x\<rfloor> then \<lfloor>x\<rfloor> + 1
      else if even \<lfloor>x\<rfloor> then \<lfloor>x\<rfloor> else \<lfloor>x\<rfloor> + 1)"







subsection \<open>Predictions (lines 133-145)\<close>

text \<open>The conditional chain of lines 137-145, which sets \<open>risk_label\<close> and \<open>color\<close>.\<close>

definition risk_framework :: "real \<Rightarrow> real \<Rightarrow> real \<Rightarrow> tier \<times> string" where
  "risk_framework prob temp_delta gdp_delta =
     (if prob \<ge> 0.65 \<and> temp_delta > 0 then (HIGH_RISK, ''#D7263D'')
      else if prob \<le> 0.35 \<and> temp_delta \<le> 0 \<and> gdp_delta \<ge> 10 then (LOW_RISK, ''#1B9E77'')
      else (STABLE, ''#E6A700''))"

text \<open>
  Lines 133-145 with the calls made so far: the classifier first, then the regressor,
  then the label. An exception of either call ends the run there.
\<close>

definition predictions ::
  "model \<Rightarrow> model \<Rightarrow> dict \<Rightarrow> dict \<Rightarrow> real \<Rightarrow> real \<Rightarrow> event list \<times> (exn + prediction)" where
  "predictions risk_model yield_model risk_input yield_input temp_delta gdp_delta =
     (case risk_model risk_input of
        Inl e \<Rightarrow> ([PredictProba risk_input], Inl e)
      | Inr p \<Rightarrow>
     (case yield_model yield_input of
        Inl e \<Rightarrow> ([PredictProba risk_input, Predict yield_input], Inl e)
      | Inr y \<Rightarrow>
          ([PredictProba risk_input, Predict yield_input],
           Inr \<lparr>risk_prob = p, yield_pred = y,
                risk_label = fst (risk_framework p temp_delta gdp_delta),
                color = snd (risk_framework p temp_delta gdp_delta)\<rparr>)))"

text \<open>The script from the data prep to the label: the model calls it made and its outcome.\<close>

definition app ::
  "row list \<Rightarrow> model \<Rightarrow> model \<Rightarrow> string \<Rightarrow> real \<Rightarrow> real \<Rightarrow> event list \<times> (exn + prediction)" where
  "app df risk_model yield_model country temp_delta gdp_delta =
     (case data_prep df country temp_delta gdp_delta of
        Inl e \<Rightarrow> ([], Inl e)
      | Inr (risk_input, yield_input) \<Rightarrow>
          predictions risk_model yield_model risk_input yield_input temp_delta gdp_delta)"

subsection \<open>The rule as the specification words it\<close>

text \<open>
  An ordered list of (predicate, label) pairs evaluated top to bottom, the first pair
  whose predicate holds giving the label, and a default when none holds.
\<close>

fun first_match :: "(bool \<times> tier) list \<Rightarrow> tier \<Rightarrow> tier" where
  "first_match [] dflt = dflt"
| "first_match ((b, l) # rest) dflt = (if b then l else first_match rest dflt)"

definition spec_labeling_rule :: "real \<Rightarrow> real \<Rightarrow> real \<Rightarrow> tier" where
  "spec_labeling_rule probability temp_delta gdp_delta_percent =
     first_match
       [(probability \<ge> 0.65 \<and> temp_delta > 0, HIGH_RISK),
        (probability \<le> 0.35 \<and> temp_delta \<le> 0 \<and> gdp_delta_percent \<ge> 10, LOW_RISK)]
       STABLE"

subsection \<open>Fixtures\<close>

text \<open>A baseline with average temperature 20 and GDP 1e11, and stand-in models.\<close>

definition baseline :: "string \<rightharpoonup> real" where
  "baseline =
     map_of
       [(''Area_Harvested'', 1500), (''Production_Tonnes'', 4200), (''Avg_Temp'', 20),
        (''Temp_Volatility'', 0.4), (''GDP_current_US'', 100000000000),
        (''political_stability_estimate'', - 1.1), (''Inflation'', 6.5),
        (''CO2_emisions'', 0.3), (''Agri_Land_Percent'', 48), (''Forest_Land_Percent'', 6),
        (''population'', 50000000)]"


definition store :: "row list" where
  "store =
     [\<lparr>Country = ''Kenya'', Year = 2019, indicators = Map.empty\<rparr>,
      \<lparr>Country = ''Kenya'', Year = 2020, indicators = baseline\<rparr>]"

definition mock_model :: "real \<Rightarrow> model" where
  "mock_model v d = Inr v"

definition failing_model :: "string \<Rightarrow> model" where
  "failing_model msg d = Inl (ModelException msg)"

section \<open>The data prep\<close>

lemma dict_comp_ok:
  "set fs \<subseteq> dom s \<Longrightarrow> dict_comp fs s d = Inr (\<lambda>k. if k \<in> set fs then s k else d k)"
proof (induction fs arbitrary: d)
  case Nil
  then show ?case by simp
next
  case (Cons f fs)
  then obtain v where v: "s f = Some v" by auto
  have "dict_comp (f # fs) s d = dict_comp fs s (d(f \<mapsto> v))" by (simp add: v)
  also have "\<dots> = Inr (\<lambda>k. if k \<in> set fs then s k else (d(f \<mapsto> v)) k)"
    using Cons by simp
  also have "(\<lambda>k. if k \<in> set fs then s k else (d(f \<mapsto> v)) k) = (\<lambda>k. if k \<in> set (f # fs) then s k else d k)"
    by (auto simp: v fun_eq_iff)
  finally show ?case .
qed

lemma dict_comp_fails:
  "\<not> set fs \<subseteq> dom s \<Longrightarrow> \<exists>f \<in> set fs. dict_comp fs s d = Inl (KeyError f)"
  by (induction fs arbitrary: d) (auto split: option.splits)

lemma yield_features_subset: "set YIELD_FEATURES \<subseteq> set RISK_FEATURES"
  by (simp add: YIELD_FEATURES_def RISK_FEATURES_def)

lemma shocked_features:
  "''Avg_Temp'' \<in> set RISK_FEATURES" "''GDP_current_US'' \<in> set RISK_FEATURES"
  "''Avg_Temp'' \<in> set YIELD_FEATURES" "''GDP_current_US'' \<in> set YIELD_FEATURES"
  by (simp_all add: RISK_FEATURES_def YIELD_FEATURES_def)

lemma build_inputs_ok:
  assumes "set RISK_FEATURES \<subseteq> dom s"
    and "s ''Avg_Temp'' = Some avg_temp" and "s ''GDP_current_US'' = Some gdp"
  shows "build_inputs s t g =
    Inr ((\<lambda>k. if k \<in> set RISK_FEATURES then s k else None)
            (''Avg_Temp'' \<mapsto> avg_temp + t, ''GDP_current_US'' \<mapsto> gdp * (1 + g / 100)),
         (\<lambda>k. if k \<in> set YIELD_FEATURES then s k else None)
            (''Avg_Temp'' \<mapsto> avg_temp + t, ''GDP_current_US'' \<mapsto> gdp * (1 + g / 100)))"
proof -
  have y: "set YIELD_FEATURES \<subseteq> dom s"
    using assms(1) yield_features_subset by blast
  show ?thesis
    unfolding build_inputs_def dict_comp_ok [OF assms(1)] dict_comp_ok [OF y]
    by (simp add: augmented_def shocked_features assms(2,3))
qed

lemma build_inputs_missing:
  assumes "\<not> set RISK_FEATURES \<subseteq> dom s"
  shows "\<exists>f \<in> set RISK_FEATURES. build_inputs s t g = Inl (KeyError f)"
  using dict_comp_fails [OF assms, of Map.empty] by (auto simp: build_inputs_def)

lemma baseline_features: "set RISK_FEATURES \<subseteq> dom baseline"
  by (simp add: RISK_FEATURES_def baseline_def)

lemma baseline_shocked:
  "baseline ''Avg_Temp'' = Some 20" "baseline ''GDP_current_US'' = Some 100000000000"
  by (simp_all add: baseline_def)

lemma latest_store:
  "latest store ''Kenya'' = Inr \<lparr>Country = ''Kenya'', Year = 2020, indicators = baseline\<rparr>"
  by (simp add: latest_def store_def country_df_def iloc_last_def)

lemma latest_rev_store:
  "latest (rev store) ''Kenya'' = Inr \<lparr>Country = ''Kenya'', Year = 2020, indicators = baseline\<rparr>"
  by (simp add: latest_def store_def country_df_def iloc_last_def)

lemma data_prep_store:
  "data_prep store ''Kenya'' t g =
    Inr ((\<lambda>k. if k \<in> set RISK_FEATURES then baseline k else None)
            (''Avg_Temp'' \<mapsto> 20 + t, ''GDP_current_US'' \<mapsto> 100000000000 * (1 + g / 100)),
         (\<lambda>k. if k \<in> set YIELD_FEATURES then baseline k else None)
            (''Avg_Temp'' \<mapsto> 20 + t, ''GDP_current_US'' \<mapsto> 100000000000 * (1 + g / 100)))"
  by (simp add: data_prep_def latest_store build_inputs_ok [OF baseline_features baseline_shocked])

subsection \<open>Facts about the doubles\<close>

text \<open>The exponent and the rounding are what their names say.\<close>

lemma bitlen_pos: "0 < k \<Longrightarrow> 1 \<le> bitlen k"
  by (simp add: bitlen_alt_def)

lemma binade_bounds:
  assumes "x \<noteq> 0"
  shows "pow2 (binade x) \<le> \<bar>x\<bar> \<and> \<bar>x\<bar> < pow2 (binade x + 1)"
proof (cases "1 \<le> \<bar>x\<bar>")
  case True
  define m where "m = \<lfloor>\<bar>x\<bar>\<rfloor>"
  have m: "0 < m" using True by (simp add: m_def)
  have b: "1 \<le> bitlen m" using m by (rule bitlen_pos)
  have e: "binade x = bitlen m - 1" using True by (simp add: binade_def m_def)
  from bitlen_bounds [OF m]
  have lo: "(2::int) ^ nat (bitlen m - 1) \<le> m" and hi: "m < 2 ^ nat (bitlen m)" by simp_all
  have "real_of_int (2 ^ nat (bitlen m - 1)) \<le> real_of_int m"
    using lo by (simp only: of_int_le_iff)
  also have "real_of_int m \<le> \<bar>x\<bar>" by (simp add: m_def)
  finally have 1: "pow2 (binade x) \<le> \<bar>x\<bar>"
    using b by (simp add: e pow2_def)
  have "m + 1 \<le> 2 ^ nat (bitlen m)" using hi by simp
  then have "real_of_int (m + 1) \<le> real_of_int (2 ^ nat (bitlen m))"
    by (simp only: of_int_le_iff)
  moreover have "\<bar>x\<bar> < real_of_int (m + 1)" by (simp add: m_def)
  ultimately have 2: "\<bar>x\<bar> < pow2 (binade x + 1)"
    using b by (simp add: e pow2_def)
  from 1 2 show ?thesis by blast
next
  case False
  define a where "a = \<bar>x\<bar>"
  have a: "0 < a" "a < 1" using assms False by (simp_all add: a_def)
  define y where "y = 1 / a"
  have y: "1 < y" using a by (simp add: y_def)
  define k where "k = \<lceil>y\<rceil> - 1"
  have k: "0 < k" using y by (simp add: k_def less_ceiling_iff)
  define n where "n = bitlen k"
  have n: "1 \<le> n" unfolding n_def using k by (rule bitlen_pos)
  have e: "binade x = - n"
    using False by (simp add: binade_def n_def k_def y_def a_def)
  from bitlen_bounds [OF k]
  have lo: "(2::int) ^ nat (n - 1) \<le> k" and hi: "k < 2 ^ nat n" by (simp_all add: n_def)
  have ky: "real_of_int k < y" "y \<le> real_of_int k + 1"
    by (simp_all add: k_def ceiling_correct less_ceiling_iff)
  have "k + 1 \<le> 2 ^ nat n" using hi by simp
  then have "real_of_int (k + 1) \<le> real_of_int (2 ^ nat n)" by (simp only: of_int_le_iff)
  then have yhi: "y \<le> 2 ^ nat n" using ky(2) by simp
  have "real_of_int (2 ^ nat (n - 1)) \<le> real_of_int k" using lo by (simp only: of_int_le_iff)
  then have "(2::real) ^ nat (n - 1) \<le> real_of_int k" by simp
  then have ylo: "2 ^ nat (n - 1) < y" using ky(1) by linarith
  have ay: "a = 1 / y" using a by (simp add: y_def)
  have 1: "1 / 2 ^ nat n \<le> a"
    unfolding ay using yhi y by (simp add: frac_le)
  have 2: "a < 1 / 2 ^ nat (n - 1)"
    unfolding ay using ylo by (simp add: frac_less2)
  have p1: "pow2 (binade x) = 1 / 2 ^ nat n"
    using n by (simp add: e pow2_def)
  have p2: "pow2 (binade x + 1) = 1 / 2 ^ nat (n - 1)"
  proof (cases "n = 1")
    case True
    then show ?thesis by (simp add: e pow2_def)
  next
    case False
    then have "\<not> 0 \<le> - n + 1" using n by simp
    moreover have "nat (- (- n + 1)) = nat (n - 1)" by simp
    ultimately show ?thesis by (simp add: e pow2_def)
  qed
  show ?thesis using 1 2 by (simp add: p1 p2 a_def)
qed

lemma round_half_even_near: "\<bar>real_of_int (round_half_even x) - x\<bar> \<le> 1 / 2"
proof -
  have "real_of_int \<lfloor>x\<rfloor> \<le> x" "x < real_of_int \<lfloor>x\<rfloor> + 1" by linarith+
  then show ?thesis by (auto simp: round_half_even_def)
qed















subsection \<open>Lines 91-97 at any arithmetic\<close>


lemma exact_ops:
  "fadd exact a b = a + b" "fmul exact a b = a * b" "fdiv100 exact a = a / 100" "fone exact = 1"
  by (simp_all add: exact_def)

lemma build_inputs_exact: "build_inputs s t g = build_inputs_in exact s t g"
  unfolding build_inputs_def build_inputs_in_def exact_ops by (rule refl)



lemma frame_members:
  "''Temp_Volatility'' \<in> set RISK_FEATURES" "''population'' \<in> set RISK_FEATURES"
  "''Inflation'' \<in> set RISK_FEATURES" "''Temp_Volatility'' \<in> set YIELD_FEATURES"
  "''population'' \<notin> set YIELD_FEATURES"
  by (simp_all add: RISK_FEATURES_def YIELD_FEATURES_def)

lemma baseline_values:
  "baseline ''Temp_Volatility'' = Some 0.4" "baseline ''population'' = Some 50000000"
  "baseline ''Inflation'' = Some 6.5"
  by (simp_all add: baseline_def)

text \<open>
  C3. For every shift and every baseline row that has the feature columns, the risk input
  holds exactly the eleven risk features and the yield input exactly the three yield
  features, and every one of them other than the average temperature and the GDP has the
  baseline's value.
\<close>

theorem build_inputs_frame:
  assumes "set RISK_FEATURES \<subseteq> dom s"
  shows "\<exists>risk_input yield_input.
           build_inputs s temp_delta gdp_delta = Inr (risk_input, yield_input)
           \<and> dom risk_input = set RISK_FEATURES
           \<and> dom yield_input = set YIELD_FEATURES
           \<and> (\<forall>f \<in> set RISK_FEATURES.
                 f \<noteq> ''Avg_Temp'' \<and> f \<noteq> ''GDP_current_US'' \<longrightarrow> risk_input f = s f)
           \<and> (\<forall>f \<in> set YIELD_FEATURES.
                 f \<noteq> ''Avg_Temp'' \<and> f \<noteq> ''GDP_current_US'' \<longrightarrow> yield_input f = s f)"
proof -
  obtain avg_temp gdp where
    v: "s ''Avg_Temp'' = Some avg_temp" "s ''GDP_current_US'' = Some gdp"
    using assms shocked_features(1,2) by blast
  have y: "set YIELD_FEATURES \<subseteq> dom s"
    using assms yield_features_subset by blast
  have "dom ((\<lambda>k. if k \<in> set RISK_FEATURES then s k else None)
            (''Avg_Temp'' \<mapsto> a, ''GDP_current_US'' \<mapsto> b)) = set RISK_FEATURES" for a b
    using assms shocked_features(1,2) by (auto split: if_splits)
  moreover have "dom ((\<lambda>k. if k \<in> set YIELD_FEATURES then s k else None)
            (''Avg_Temp'' \<mapsto> a, ''GDP_current_US'' \<mapsto> b)) = set YIELD_FEATURES" for a b
    using y shocked_features(3,4) by (auto split: if_splits)
  ultimately show ?thesis
    by (simp add: build_inputs_ok [OF assms v])
qed

theorem build_inputs_frame_witness:
  "\<exists>risk_input yield_input.
     build_inputs baseline 1.5 15 = Inr (risk_input, yield_input)
     \<and> risk_input ''Temp_Volatility'' = Some 0.4
     \<and> risk_input ''population'' = Some 50000000
     \<and> risk_input ''Inflation'' = Some 6.5
     \<and> yield_input ''Temp_Volatility'' = Some 0.4
     \<and> yield_input ''population'' = None"
proof -
  from build_inputs_frame [OF baseline_features, of "1.5" 15]
  obtain risk_input yield_input where
    b: "build_inputs baseline 1.5 15 = Inr (risk_input, yield_input)"
    and dy: "dom yield_input = set YIELD_FEATURES"
    and r: "\<forall>f \<in> set RISK_FEATURES.
              f \<noteq> ''Avg_Temp'' \<and> f \<noteq> ''GDP_current_US'' \<longrightarrow> risk_input f = baseline f"
    and y: "\<forall>f \<in> set YIELD_FEATURES.
              f \<noteq> ''Avg_Temp'' \<and> f \<noteq> ''GDP_current_US'' \<longrightarrow> yield_input f = baseline f"
    by (elim exE conjE)
  have r1: "risk_input ''Temp_Volatility'' = Some 0.4"
    using bspec [OF r frame_members(1)] by (simp add: baseline_values)
  have r2: "risk_input ''population'' = Some 50000000"
    using bspec [OF r frame_members(2)] by (simp add: baseline_values)
  have r3: "risk_input ''Inflation'' = Some 6.5"
    using bspec [OF r frame_members(3)] by (simp add: baseline_values)
  have y1: "yield_input ''Temp_Volatility'' = Some 0.4"
    using bspec [OF y frame_members(4)] by (simp add: baseline_values)
  have "''population'' \<notin> dom yield_input"
    unfolding dy by (rule frame_members(5))
  then have y2: "yield_input ''population'' = None"
    by (simp add: domIff)
  show ?thesis
    by (intro exI conjI) (rule b r1 r2 r3 y1 y2)+
qed

section \<open>The labeling rule\<close>

text \<open>
  C1. The label set by lines 137-145 is the first match, in this order, of: probability at
  least 0.65 and a positive temperature shift (HIGH RISK); probability at most 0.35, a
  temperature shift at most zero and a GDP change of at least 10 (LOW RISK); otherwise
  STABLE. This holds for all real values of the three inputs.
\<close>

theorem risk_label_first_match:
  "fst (risk_framework probability temp_delta gdp_delta_percent) =
     spec_labeling_rule probability temp_delta gdp_delta_percent"
  by (simp add: risk_framework_def spec_labeling_rule_def)

theorem risk_label_first_match_witness:
  "fst (risk_framework 0.7 1.5 0) = HIGH_RISK \<and> spec_labeling_rule 0.7 1.5 0 = HIGH_RISK
   \<and> fst (risk_framework 0.2 (- 1) 15) = LOW_RISK \<and> spec_labeling_rule 0.2 (- 1) 15 = LOW_RISK
   \<and> fst (risk_framework 0.5 0 0) = STABLE \<and> spec_labeling_rule 0.5 0 0 = STABLE"
  using risk_label_first_match [of "0.7" "1.5" 0]
    risk_label_first_match [of "0.2" "- 1" 15]
    risk_label_first_match [of "0.5" 0 0]
  by (simp add: spec_labeling_rule_def)

text \<open>
  C4. The label depends on the probability and the two shifts only, and exactly one branch
  fires: the HIGH RISK condition and the LOW RISK condition never hold together, the label
  is HIGH RISK exactly when the first holds, LOW RISK exactly when the second holds, and
  STABLE exactly when neither does.
\<close>

theorem risk_label_branches_exclusive:
  "\<not> ((prob \<ge> 0.65 \<and> temp_delta > 0) \<and> (prob \<le> 0.35 \<and> temp_delta \<le> 0 \<and> gdp_delta \<ge> 10))
   \<and> (fst (risk_framework prob temp_delta gdp_delta) = HIGH_RISK) =
       (prob \<ge> 0.65 \<and> temp_delta > 0)
   \<and> (fst (risk_framework prob temp_delta gdp_delta) = LOW_RISK) =
       (prob \<le> 0.35 \<and> temp_delta \<le> 0 \<and> gdp_delta \<ge> 10)
   \<and> (fst (risk_framework prob temp_delta gdp_delta) = STABLE) =
       (\<not> (prob \<ge> 0.65 \<and> temp_delta > 0)
        \<and> \<not> (prob \<le> 0.35 \<and> temp_delta \<le> 0 \<and> gdp_delta \<ge> 10))"
  by (auto simp add: risk_framework_def)

text \<open>
  C5. The boundary cases: probability 0.65 with a shift of 0.0001 is HIGH RISK;
  probability 0.65 with a shift of 0 is not; probability 0.35 with a shift of 0 and a GDP
  change of 10 is LOW RISK; with a GDP change of 9.999 it is STABLE.
\<close>

theorem risk_label_boundaries:
  "fst (risk_framework 0.65 0.0001 gdp_delta) = HIGH_RISK
   \<and> fst (risk_framework 0.65 0 gdp_delta) \<noteq> HIGH_RISK
   \<and> fst (risk_framework 0.35 0 10) = LOW_RISK
   \<and> fst (risk_framework 0.35 0 9.999) = STABLE"
  by (simp add: risk_framework_def)

section \<open>The run\<close>

lemma latest_unknown:
  assumes "\<forall>r \<in> set df. Country r \<noteq> country"
  shows "latest df country = Inl IndexError"
proof -
  have "filter (\<lambda>r. Country r = country) df = []"
    using assms by (simp add: filter_empty_conv)
  then show ?thesis
    by (simp add: latest_def country_df_def iloc_last_def)
qed

lemma latest_known:
  assumes "\<exists>r \<in> set df. Country r = country"
  shows "\<exists>r. latest df country = Inr r \<and> r \<in> set df \<and> Country r = country"
proof -
  let ?rows = "sort_key Year (filter (\<lambda>r. Country r = country) df)"
  have "set ?rows = {r \<in> set df. Country r = country}" by simp
  then have "set ?rows \<noteq> {}" using assms by auto
  then have ne: "?rows \<noteq> []" by (metis set_empty)
  then have "last ?rows \<in> set ?rows" by (rule last_in_set)
  then have "last ?rows \<in> set df \<and> Country (last ?rows) = country" by simp
  moreover have "latest df country = Inr (last ?rows)"
    using ne by (simp add: latest_def country_df_def iloc_last_def split: list.splits)
  ultimately show ?thesis by blast
qed

text \<open>
  C7. For every country name that no row of the data frame carries, the run fails at the
  lookup of the latest row, before line 133: the outcome is the exception of
  \<open>country_df.iloc[-1]\<close> on the empty selection (the failure the specification calls
  UnknownCountryError), and the list of model calls is empty.
\<close>

theorem unknown_country_no_model_calls:
  assumes "\<forall>r \<in> set df. Country r \<noteq> country"
  shows "app df risk_model yield_model country temp_delta gdp_delta = ([], Inl IndexError)"
  by (simp add: app_def data_prep_def latest_unknown [OF assms])

lemma store_countries: "\<forall>r \<in> set store. Country r \<noteq> ''Atlantis''"
  by (simp add: store_def)

theorem unknown_country_no_model_calls_witness:
  "app store (mock_model 0.7) (mock_model 2.5) ''Atlantis'' 1.5 0 = ([], Inl IndexError)
   \<and> length (fst (app store (mock_model 0.7) (mock_model 2.5) ''Atlantis'' 1.5 0)) = 0"
  using unknown_country_no_model_calls [OF store_countries, of "mock_model 0.7" "mock_model 2.5" "1.5" 0]
  by simp

lemma app_prepared:
  assumes "data_prep df country t g = Inr (ri, yi)"
  shows "app df rm ym country t g = predictions rm ym ri yi t g"
  by (simp add: app_def assms)

text \<open>
  C6, as the code has it. Lines 133-145 do not check the range of the probability:
  whatever number the classifier returns, inside [0,1] or not, is kept as it is and given
  a label by the same three ordered branches, whenever both model calls return.
\<close>

theorem predictions_no_range_check:
  assumes "risk_model risk_input = Inr p" and "yield_model yield_input = Inr y"
  shows "snd (predictions risk_model yield_model risk_input yield_input temp_delta gdp_delta) =
           Inr \<lparr>risk_prob = p, yield_pred = y,
                risk_label = spec_labeling_rule p temp_delta gdp_delta,
                color = snd (risk_framework p temp_delta gdp_delta)\<rparr>"
  by (simp add: predictions_def assms risk_framework_def spec_labeling_rule_def)

theorem predictions_no_range_check_witness:
  "snd (predictions (mock_model 1.5) (mock_model 2.5) Map.empty Map.empty 1 0) =
     Inr \<lparr>risk_prob = 1.5, yield_pred = 2.5, risk_label = HIGH_RISK, color = ''#D7263D''\<rparr>
   \<and> snd (predictions (mock_model (- 0.2)) (mock_model 2.5) Map.empty Map.empty 0 10) =
     Inr \<lparr>risk_prob = - 0.2, yield_pred = 2.5, risk_label = LOW_RISK, color = ''#1B9E77''\<rparr>"
  using predictions_no_range_check [of "mock_model 1.5" Map.empty "1.5" "mock_model 2.5" Map.empty "2.5" 1 0]
    predictions_no_range_check [of "mock_model (- 0.2)" Map.empty "- 0.2" "mock_model 2.5" Map.empty "2.5" 0 10]
  by (simp add: mock_model_def risk_framework_def spec_labeling_rule_def)

text \<open>
  A classifier that returns 1.5, with a temperature shift of 1: the run produces the
  label HIGH RISK with the probability 1.5, not an error.
\<close>

theorem out_of_range_probability_labelled:
  "snd (app store (mock_model 1.5) (mock_model 2.5) ''Kenya'' 1 0) =
     Inr \<lparr>risk_prob = 1.5, yield_pred = 2.5, risk_label = HIGH_RISK, color = ''#D7263D''\<rparr>
   \<and> \<not> (0 \<le> (1.5::real) \<and> (1.5::real) \<le> 1)"
  by (simp add: app_def data_prep_store predictions_def mock_model_def risk_framework_def)

text \<open>
  C8. The outcome of a run is all or nothing. Once the data prep has built the two inputs:
  if the classifier call raises, the run ends with that same exception and the regressor
  is not called; if the regressor call raises, the run ends with that same exception; a
  prediction (probability, label, yield) is the outcome only if both calls returned, with
  the values they returned; and if both calls return, the outcome is the prediction made
  of the two returned values and the label of the probability.
\<close>

theorem app_all_or_nothing:
  assumes "data_prep df country temp_delta gdp_delta = Inr (risk_input, yield_input)"
  shows "(\<forall>e. risk_model risk_input = Inl e \<longrightarrow>
            app df risk_model yield_model country temp_delta gdp_delta =
              ([PredictProba risk_input], Inl e))
       \<and> (\<forall>p e. risk_model risk_input = Inr p \<and> yield_model yield_input = Inl e \<longrightarrow>
            snd (app df risk_model yield_model country temp_delta gdp_delta) = Inl e)
       \<and> (\<forall>res. snd (app df risk_model yield_model country temp_delta gdp_delta) = Inr res \<longrightarrow>
            risk_model risk_input = Inr (risk_prob res)
            \<and> yield_model yield_input = Inr (yield_pred res))
       \<and> (\<forall>p y. risk_model risk_input = Inr p \<and> yield_model yield_input = Inr y \<longrightarrow>
            app df risk_model yield_model country temp_delta gdp_delta =
              ([PredictProba risk_input, Predict yield_input],
               Inr \<lparr>risk_prob = p, yield_pred = y,
                    risk_label = fst (risk_framework p temp_delta gdp_delta),
                    color = snd (risk_framework p temp_delta gdp_delta)\<rparr>))"
  unfolding app_prepared [OF assms] predictions_def
  by (auto split: sum.splits)

theorem app_all_or_nothing_witness:
  "snd (app store (failing_model ''risk'') (mock_model 2.5) ''Kenya'' 1.5 0) =
     Inl (ModelException ''risk'')
   \<and> length (fst (app store (failing_model ''risk'') (mock_model 2.5) ''Kenya'' 1.5 0)) = 1
   \<and> snd (app store (mock_model 0.7) (failing_model ''yield'') ''Kenya'' 1.5 0) =
     Inl (ModelException ''yield'')
   \<and> snd (app store (mock_model 0.7) (mock_model 2.5) ''Kenya'' 1.5 0) =
     Inr \<lparr>risk_prob = 0.7, yield_pred = 2.5, risk_label = HIGH_RISK, color = ''#D7263D''\<rparr>
   \<and> length (fst (app store (mock_model 0.7) (mock_model 2.5) ''Kenya'' 1.5 0)) = 2"
proof -
  obtain ri yi where d: "data_prep store ''Kenya'' 1.5 0 = Inr (ri, yi)"
    by (simp add: data_prep_store)
  have r: "failing_model ''risk'' ri = Inl (ModelException ''risk'')"
    by (simp add: failing_model_def)
  have y: "mock_model 0.7 ri = Inr 0.7 \<and> failing_model ''yield'' yi = Inl (ModelException ''yield'')"
    by (simp add: failing_model_def mock_model_def)
  have b: "mock_model 0.7 ri = Inr 0.7 \<and> mock_model 2.5 yi = Inr 2.5"
    by (simp add: mock_model_def)
  from app_all_or_nothing [OF d, of "failing_model ''risk''" "mock_model 2.5"] r
  have 1: "app store (failing_model ''risk'') (mock_model 2.5) ''Kenya'' 1.5 0 =
      ([PredictProba ri], Inl (ModelException ''risk''))" by blast
  from app_all_or_nothing [OF d, of "mock_model 0.7" "failing_model ''yield''"] y
  have 2: "snd (app store (mock_model 0.7) (failing_model ''yield'') ''Kenya'' 1.5 0) =
      Inl (ModelException ''yield'')" by blast
  from app_all_or_nothing [OF d, of "mock_model 0.7" "mock_model 2.5"] b
  have 3: "app store (mock_model 0.7) (mock_model 2.5) ''Kenya'' 1.5 0 =
      ([PredictProba ri, Predict yi],
       Inr \<lparr>risk_prob = 0.7, yield_pred = 2.5,
            risk_label = fst (risk_framework 0.7 1.5 0),
            color = snd (risk_framework 0.7 1.5 0)\<rparr>)" by blast
  show ?thesis using 1 2 3 by (simp add: risk_framework_def)
qed

text \<open>
  C9. The run is determined by the latest row's indicators, the two shifts and the two
  models: two runs whose latest rows carry the same indicators, under the same shifts and
  the same models, build the same pair of inputs, make the same model calls and end with
  the same outcome, whatever else the two data frames hold.
\<close>

theorem run_deterministic:
  assumes "latest df1 country1 = Inr r1" and "latest df2 country2 = Inr r2"
    and "indicators r1 = indicators r2"
  shows "data_prep df1 country1 temp_delta gdp_delta = data_prep df2 country2 temp_delta gdp_delta
       \<and> app df1 risk_model yield_model country1 temp_delta gdp_delta =
           app df2 risk_model yield_model country2 temp_delta gdp_delta"
  by (simp add: app_def data_prep_def assms)

theorem run_deterministic_witness:
  "latest store ''Kenya'' = latest (rev store) ''Kenya''
   \<and> data_prep store ''Kenya'' 1.5 0 = data_prep (rev store) ''Kenya'' 1.5 0
   \<and> app store (mock_model 0.7) (mock_model 2.5) ''Kenya'' 1.5 0 =
       app (rev store) (mock_model 0.7) (mock_model 2.5) ''Kenya'' 1.5 0
   \<and> snd (app store (mock_model 0.7) (mock_model 2.5) ''Kenya'' 1.5 0) =
       Inr \<lparr>risk_prob = 0.7, yield_pred = 2.5, risk_label = HIGH_RISK, color = ''#D7263D''\<rparr>"
proof -
  have "snd (app store (mock_model 0.7) (mock_model 2.5) ''Kenya'' 1.5 0) =
       Inr \<lparr>risk_prob = 0.7, yield_pred = 2.5, risk_label = HIGH_RISK, color = ''#D7263D''\<rparr>"
    by (simp add: app_def data_prep_store predictions_def mock_model_def risk_framework_def)
  then show ?thesis
    using run_deterministic [OF latest_store latest_rev_store, of "1.5" 0 "mock_model 0.7" "mock_model 2.5"]
    by (simp add: latest_store latest_rev_store)
qed

end
